theory Spec2Isabelle
  imports Main
begin

section \<open>The schema-driven form of App.js\<close>

text \<open>
  The component \<^verbatim>\<open>DynamicForm\<close> of \<^verbatim>\<open>src/App.js\<close> keeps two pieces of state,
  \<^verbatim>\<open>formData\<close> and \<^verbatim>\<open>errors\<close>, and has two functions with logic:
  \<^verbatim>\<open>validateInput\<close> (lines 40-62) and \<^verbatim>\<open>handleSubmit\<close> (lines 64-109).
  Both are embedded below, together with the JavaScript notions they rely on
  (truthiness, the operator \<^verbatim>\<open>||\<close>, template literals, property keys).
\<close>

subsection \<open>JavaScript values\<close>

text \<open>
  The values stored in \<^verbatim>\<open>formData\<close> come from \<^verbatim>\<open>handleInputChange\<close>: the text of
  a \<^verbatim>\<open>TextInput\<close> (a string) or the negated previous value of a checkbox (a boolean).
  \<^verbatim>\<open>formData\<close> and \<^verbatim>\<open>validationErrors\<close> are plain objects, created as \<^verbatim>\<open>{}\<close>: a
  map holds their own properties, and reading and writing them goes through
  \<open>obj_get\<close> and \<open>obj_set\<close> below, which account for \<^verbatim>\<open>Object.prototype\<close>.
  A string is a list of characters; its \<^verbatim>\<open>.length\<close> is the length of the list
  (JavaScript counts UTF-16 code units, so the model covers the strings whose
  characters are one code unit each).

  The blueprint is taken as the JSON document the data model describes: a
  \<^verbatim>\<open>validator\<close>, when present, is an array of rule objects, the \<^verbatim>\<open>value\<close> of a length
  rule is an integer, \<^verbatim>\<open>name\<close> and \<^verbatim>\<open>label\<close> are strings when present, and a row
  has an array of columns, each with an array of elements.
\<close>

text \<open>
  \<open>JProto k\<close> is the member of \<^verbatim>\<open>Object.prototype\<close> named \<open>k\<close>: what reading the key
  \<open>k\<close> of an object without an own property \<open>k\<close> returns. It is a built-in function,
  or, for \<^verbatim>\<open>__proto__\<close>, the prototype object itself.
\<close>

datatype jsval = JStr string | JBool bool | JProto string

type_synonym formdata = "string \<rightharpoonup> jsval"
type_synonym errorstate = "string \<rightharpoonup> string"

text \<open>
  The members of \<^verbatim>\<open>Object.prototype\<close>, each with the value of its \<^verbatim>\<open>length\<close>
  property: the number of parameters of a function; the prototype object has no
  such property.
\<close>

definition proto_members :: "(string \<times> int option) list" where
  "proto_members =
     [(''constructor'', Some 1), (''hasOwnProperty'', Some 1), (''isPrototypeOf'', Some 1),
      (''propertyIsEnumerable'', Some 1), (''toLocaleString'', Some 0), (''toString'', Some 0),
      (''valueOf'', Some 0), (''__defineGetter__'', Some 2), (''__defineSetter__'', Some 2),
      (''__lookupGetter__'', Some 1), (''__lookupSetter__'', Some 1), (''__proto__'', None)]"

text \<open>
  \<^verbatim>\<open>obj[k]\<close> on a plain object: the own property when there is one, else the member
  of \<^verbatim>\<open>Object.prototype\<close> of that name when there is one, else \<^verbatim>\<open>undefined\<close>
  (\<open>None\<close>).
\<close>

definition obj_get :: "(string \<rightharpoonup> jsval) \<Rightarrow> string \<Rightarrow> jsval option" where
  "obj_get obj k =
     (case obj k of
        Some v \<Rightarrow> Some v
      | None \<Rightarrow> (case map_of proto_members k of Some l \<Rightarrow> Some (JProto k) | None \<Rightarrow> None))"

text \<open>
  \<^verbatim>\<open>obj[k] = s\<close> on a plain object, for a string \<open>s\<close>: it writes the own property
  \<open>k\<close>, except that on an object without an own property \<^verbatim>\<open>__proto__\<close> the
  assignment under that key calls the setter of \<^verbatim>\<open>Object.prototype\<close>, which
  ignores a value that is neither an object nor \<^verbatim>\<open>null\<close>: nothing is written.
\<close>

definition obj_set :: "(string \<rightharpoonup> string) \<Rightarrow> string \<Rightarrow> string \<Rightarrow> (string \<rightharpoonup> string)" where
  "obj_set obj k s = (if k = ''__proto__'' \<and> obj k = None then obj else obj(k \<mapsto> s))"

text \<open>
  \<^verbatim>\<open>!x\<close> is false for the truthy values: a non-empty string, \<^verbatim>\<open>true\<close>, and every
  function and object.
\<close>

fun truthy :: "jsval option \<Rightarrow> bool" where
  "truthy None = False"
| "truthy (Some (JStr s)) = (s \<noteq> [])"
| "truthy (Some (JBool b)) = b"
| "truthy (Some (JProto k)) = True"

text \<open>\<^verbatim>\<open>x || ""\<close>: the left operand when it is truthy, the empty string otherwise.\<close>

definition or_empty :: "jsval option \<Rightarrow> jsval" where
  "or_empty x = (if truthy x then the x else JStr [])"

text \<open>
  \<^verbatim>\<open>value.length\<close>: the length of a string; a boolean has no such property and the
  access gives \<^verbatim>\<open>undefined\<close> (\<open>None\<close>); a member of \<^verbatim>\<open>Object.prototype\<close> has the
  \<^verbatim>\<open>length\<close> of the table above.
\<close>

fun js_length :: "jsval \<Rightarrow> int option" where
  "js_length (JStr s) = Some (int (length s))"
| "js_length (JBool b) = None"
| "js_length (JProto k) = (case map_of proto_members k of Some l \<Rightarrow> l | None \<Rightarrow> None)"

text \<open>
  \<^verbatim>\<open>a <= b\<close> and \<^verbatim>\<open>a < b\<close> with \<^verbatim>\<open>a\<close> possibly \<^verbatim>\<open>undefined\<close>: \<^verbatim>\<open>undefined\<close> converts
  to NaN and every comparison with NaN is false.
\<close>

fun js_le :: "int option \<Rightarrow> int \<Rightarrow> bool" where
  "js_le None n = False"
| "js_le (Some k) n = (k \<le> n)"

fun js_lt :: "int option \<Rightarrow> int \<Rightarrow> bool" where
  "js_lt None n = False"
| "js_lt (Some k) n = (k < n)"

text \<open>
  An attribute of a JSON object that may be missing is an option. In a template
  literal and as a property key a missing attribute reads \<^verbatim>\<open>undefined\<close>.
\<close>

fun tmpl :: "string option \<Rightarrow> string" where
  "tmpl None = ''undefined''"
| "tmpl (Some s) = s"

text \<open>An integer in decimal, with a minus sign when negative.\<close>

fun digits :: "nat \<Rightarrow> string" where
  "digits n = (if n < 10 then [''0123456789'' ! n]
               else digits (n div 10) @ [''0123456789'' ! (n mod 10)])"

declare digits.simps [simp del]

definition decimal :: "int \<Rightarrow> string" where
  "decimal i = (if i < 0 then CHR ''-'' # digits (nat (- i)) else digits (nat i))"

subsection \<open>The blueprint\<close>

text \<open>
  A rule of a \<^verbatim>\<open>validator\<close> array is a JSON object tagged by \<^verbatim>\<open>type\<close>. The code
  reads \<^verbatim>\<open>operator\<close> and \<^verbatim>\<open>value\<close> of a \<^verbatim>\<open>"length"\<close> rule and \<^verbatim>\<open>regexp\<close> of a
  \<^verbatim>\<open>"pattern"\<close> rule; a rule of any other type matches no case of the switch.
\<close>

datatype rule =
    Length string int
  | Pattern string
  | OtherRule string

text \<open>
  A column also has a \<^verbatim>\<open>size\<close>, its flex weight, which only the renderer reads.

  An element: the code of \<^verbatim>\<open>handleSubmit\<close> reads \<^verbatim>\<open>name\<close>, \<^verbatim>\<open>label\<close>, \<^verbatim>\<open>required\<close>
  and \<^verbatim>\<open>validator\<close>; \<^verbatim>\<open>type\<close> is read by the renderer only. A missing \<^verbatim>\<open>required\<close>
  is falsy (\<open>False\<close>), a missing \<^verbatim>\<open>validator\<close> is \<open>None\<close>; an array, also the empty
  one, is truthy.
\<close>

record element =
  etype :: string
  name :: "string option"
  label :: "string option"
  required :: bool
  validator :: "rule list option"

record column =
  size_col :: nat
  elements :: "element list"

text \<open>
  A block is tagged by \<^verbatim>\<open>type\<close>: \<^verbatim>\<open>"block"\<close> with \<^verbatim>\<open>elements\<close>, \<^verbatim>\<open>"row"\<close> with
  \<^verbatim>\<open>columns\<close>, or anything else.
\<close>

datatype block =
    BlockB "element list"
  | RowB "column list"
  | OtherB string

type_synonym blueprint = "block list"

subsection \<open>Errors and the platform\<close>

text \<open>
  The one exception the two functions can raise: \<^verbatim>\<open>new RegExp(src)\<close> throws a
  \<^verbatim>\<open>SyntaxError\<close> when \<^verbatim>\<open>src\<close> is not a regular expression.
\<close>

datatype error = SyntaxError

text \<open>
  Three built-ins of the JavaScript engine are parameters of the model.
  \<^item> \<open>new_RegExp js src\<close> is \<open>None\<close> when \<^verbatim>\<open>new RegExp(src)\<close> throws and \<open>Some t\<close>
    otherwise, where \<open>t s\<close> is the result of \<^verbatim>\<open>test\<close> on the string \<open>s\<close> (there is no
    flag, so \<^verbatim>\<open>test\<close> keeps no state).
  \<^item> \<open>float_str js i\<close> is what a template literal prints for an integer \<open>i\<close> of
    magnitude above \<open>2^53\<close>: the shortest digits that identify the floating point
    number, which need not be the digits of \<open>i\<close>, and from \<open>10^21\<close> on the exponent
    form, such as \<^verbatim>\<open>1e+21\<close>.
  \<^item> \<open>function_str js k\<close> is the string conversion of the built-in function
    \<^verbatim>\<open>Object.prototype[k]\<close>, whose text is left to the engine.
\<close>

record platform =
  new_RegExp :: "string \<Rightarrow> (string \<Rightarrow> bool) option"
  float_str :: "int \<Rightarrow> string"
  function_str :: "string \<Rightarrow> string"

text \<open>
  A number in a template literal: an integer of magnitude up to \<open>2^53\<close> is written
  in decimal (every such integer is a floating point number, and its shortest
  digits are its own), a larger one as the engine prints it.
\<close>

definition num_str :: "platform \<Rightarrow> int \<Rightarrow> string" where
  "num_str js i = (if \<bar>i\<bar> \<le> 2 ^ 53 then decimal i else float_str js i)"

text \<open>The string conversion that \<^verbatim>\<open>RegExp.prototype.test\<close> applies to its argument.\<close>

fun js_to_string :: "platform \<Rightarrow> jsval \<Rightarrow> string" where
  "js_to_string js (JStr s) = s"
| "js_to_string js (JBool b) = (if b then ''true'' else ''false'')"
| "js_to_string js (JProto k) =
     (if k = ''__proto__'' then ''[object Object]'' else function_str js k)"

subsection \<open>validateInput\<close>

text \<open>
  The body of the loop of \<^verbatim>\<open>validateInput\<close> for one rule: \<open>Inl\<close> when it throws,
  \<open>Inr (Some m)\<close> when it returns the message \<open>m\<close>, \<open>Inr None\<close> when it reaches
  \<^verbatim>\<open>break\<close> (or no case matches) and the loop goes on.
\<close>

fun check_rule :: "platform \<Rightarrow> element \<Rightarrow> rule \<Rightarrow> jsval \<Rightarrow> error + string option" where
  "check_rule js el (Length operator n) v =
     (if operator = ''gt'' \<and> js_le (js_length v) n then
        Inr (Some (''Value of '' @ tmpl (label el) @ '' field must be longer than ''
                   @ num_str js n @ '' characters''))
      else if operator = ''gte'' \<and> js_lt (js_length v) n then
        Inr (Some (''Value of '' @ tmpl (label el) @ '' field must be at least ''
                   @ num_str js n @ '' characters long''))
      else Inr None)"
| "check_rule js el (Pattern regexp) v =
     (case new_RegExp js regexp of
        None \<Rightarrow> Inl SyntaxError
      | Some test \<Rightarrow>
          if \<not> test (js_to_string js v) then
            Inr (Some (''Invalid format for '' @ tmpl (label el) @ '' field''))
          else Inr None)"
| "check_rule js el (OtherRule t) v = Inr None"

text \<open>The loop over the rules; \<^verbatim>\<open>return null\<close> after the last one.\<close>

fun validate_rules :: "platform \<Rightarrow> element \<Rightarrow> rule list \<Rightarrow> jsval \<Rightarrow> error + string option" where
  "validate_rules js el [] v = Inr None"
| "validate_rules js el (r # rs) v =
     (case check_rule js el r v of
        Inl e \<Rightarrow> Inl e
      | Inr (Some m) \<Rightarrow> Inr (Some m)
      | Inr None \<Rightarrow> validate_rules js el rs v)"

text \<open>
  \<^verbatim>\<open>validateInput(element, value)\<close> iterates \<^verbatim>\<open>element.validator\<close>; the caller has
  checked that it is there.
\<close>

definition validateInput :: "platform \<Rightarrow> element \<Rightarrow> jsval \<Rightarrow> error + string option" where
  "validateInput js el v = validate_rules js el (case validator el of None \<Rightarrow> [] | Some rs \<Rightarrow> rs) v"

subsection \<open>handleSubmit: the traversal\<close>

text \<open>
  \<^verbatim>\<open>Array.prototype.forEach\<close> with a callback that updates the two local variables
  \<^verbatim>\<open>validationErrors\<close> and \<^verbatim>\<open>hasErrors\<close> of \<^verbatim>\<open>handleSubmit\<close>, and that may throw:
  the exception leaves the loop.
\<close>

type_synonym acc = "errorstate \<times> bool"

fun forEach :: "('a \<Rightarrow> acc \<Rightarrow> error + acc) \<Rightarrow> 'a list \<Rightarrow> acc \<Rightarrow> error + acc" where
  "forEach f [] a = Inr a"
| "forEach f (x # xs) a = (case f x a of Inl e \<Rightarrow> Inl e | Inr a' \<Rightarrow> forEach f xs a')"

text \<open>
  \<^verbatim>\<open>element.name\<close> used as a property key of \<^verbatim>\<open>formData\<close> and of
  \<^verbatim>\<open>validationErrors\<close>.
\<close>

definition key :: "element \<Rightarrow> string" where
  "key el = tmpl (name el)"

text \<open>Line 75, the second argument of the call: \<^verbatim>\<open>formData[element.name] || ""\<close>.\<close>

definition validator_arg :: "formdata \<Rightarrow> element \<Rightarrow> jsval" where
  "validator_arg fd el = or_empty (obj_get fd (key el))"

text \<open>\<^verbatim>\<open>if (error)\<close> on the result of \<^verbatim>\<open>validateInput\<close>: \<^verbatim>\<open>null\<close> and \<^verbatim>\<open>""\<close> are falsy.\<close>

fun truthy_msg :: "string option \<Rightarrow> bool" where
  "truthy_msg None = False"
| "truthy_msg (Some m) = (m \<noteq> [])"

text \<open>Lines 72-81: the validator of one element.\<close>

definition validator_step :: "platform \<Rightarrow> formdata \<Rightarrow> element \<Rightarrow> acc \<Rightarrow> error + acc" where
  "validator_step js fd el a =
     (case validator el of
        None \<Rightarrow> Inr a
      | Some rs \<Rightarrow>
          (case validateInput js el (validator_arg fd el) of
             Inl e \<Rightarrow> Inl e
           | Inr error \<Rightarrow>
               if truthy_msg error then Inr (obj_set (fst a) (key el) (the error), True)
               else Inr a))"

text \<open>Lines 82-85: the required check of one element.\<close>

definition required_step :: "formdata \<Rightarrow> element \<Rightarrow> acc \<Rightarrow> acc" where
  "required_step fd el a =
     (if required el \<and> \<not> truthy (obj_get fd (key el))
      then (obj_set (fst a) (key el) (tmpl (label el) @ '' is required''), True)
      else a)"

text \<open>Lines 71-86: the callback on the elements of a column.\<close>

definition visit_element :: "platform \<Rightarrow> formdata \<Rightarrow> element \<Rightarrow> acc \<Rightarrow> error + acc" where
  "visit_element js fd el a =
     (case validator_step js fd el a of
        Inl e \<Rightarrow> Inl e
      | Inr a' \<Rightarrow> Inr (required_step fd el a'))"

text \<open>Lines 70-87: the callback on the columns of a row.\<close>

definition visit_column :: "platform \<Rightarrow> formdata \<Rightarrow> column \<Rightarrow> acc \<Rightarrow> error + acc" where
  "visit_column js fd col a = forEach (visit_element js fd) (elements col) a"

text \<open>Lines 68-89: the callback on the blocks; only \<^verbatim>\<open>block.type === "row"\<close> does anything.\<close>

fun visit_block :: "platform \<Rightarrow> formdata \<Rightarrow> block \<Rightarrow> acc \<Rightarrow> error + acc" where
  "visit_block js fd (RowB cols) a = forEach (visit_column js fd) cols a"
| "visit_block js fd (BlockB els) a = Inr a"
| "visit_block js fd (OtherB t) a = Inr a"

text \<open>
  Lines 65-89: the traversal of \<^verbatim>\<open>config.blueprint\<close>, from
  \<^verbatim>\<open>validationErrors = {}\<close> and \<^verbatim>\<open>hasErrors = false\<close>.
\<close>

definition traverse :: "platform \<Rightarrow> blueprint \<Rightarrow> formdata \<Rightarrow> error + acc" where
  "traverse js config fd = forEach (visit_block js fd) config (Map.empty, False)"

subsection \<open>handleSubmit: the submission\<close>

text \<open>
  \<^verbatim>\<open>submit(data)\<close> (lines 22-31) calls \<^verbatim>\<open>fetch\<close> with the request below. The body is
  \<^verbatim>\<open>JSON.stringify(data)\<close>; the record keeps the object that is serialised.
\<close>

record request =
  url :: string
  http_method :: string
  headers :: "(string \<times> string) list"
  json_body :: formdata

definition configUrl :: string where
  "configUrl = ''https://9fd21a03-38a1-4e35-9cea-a97bcfc00f4b.mock.pstmn.io/reg''"

definition submit :: "formdata \<Rightarrow> request" where
  "submit data = \<lparr>url = configUrl, http_method = ''POST'',
     headers = [(''Accept'', ''application/json''), (''Content-Type'', ''application/json'')],
     json_body = data\<rparr>"

text \<open>
  What \<^verbatim>\<open>await submit(formData)\<close> does is decided by the network, a parameter of the
  model. The promise of \<^verbatim>\<open>fetch\<close> is rejected when the request cannot be completed
  (a network or transport failure), and \<^verbatim>\<open>await\<close> then throws into the \<^verbatim>\<open>catch\<close>.
  It is fulfilled with the response as soon as the server answers, whatever the
  HTTP status of the answer; \<open>Fulfilled s\<close> is a response of status \<open>s\<close>. The code
  does not read the response.
\<close>

datatype fetch_result = Fulfilled nat | Rejected

text \<open>What the function does to the outside, in order.\<close>

datatype effect =
    Alert string string
  | Fetch request
  | KeyboardDismiss

text \<open>The state of the component: \<^verbatim>\<open>useState({})\<close> twice.\<close>

record form_state =
  formData :: formdata
  errors :: errorstate

text \<open>
  \<^verbatim>\<open>handleSubmit\<close>: the state after the call and the effects of the call, or the
  exception that rejects the promise of the \<^verbatim>\<open>async\<close> function (then no state
  setter was called and nothing was shown).
\<close>

definition handleSubmit ::
  "platform \<Rightarrow> blueprint \<Rightarrow> form_state \<Rightarrow> fetch_result \<Rightarrow> error + form_state \<times> effect list" where
  "handleSubmit js config st net =
     (case traverse js config (formData st) of
        Inl e \<Rightarrow> Inl e
      | Inr (validationErrors, hasErrors) \<Rightarrow>
          if hasErrors then
            Inr (st\<lparr>errors := validationErrors\<rparr>,
                 [Alert ''Validation Error'' ''Please correct the errors in the form''])
          else
            (case net of
               Fulfilled status \<Rightarrow>
                 Inr (st\<lparr>errors := Map.empty, formData := Map.empty\<rparr>,
                      [Fetch (submit (formData st)),
                       Alert ''Success'' ''Form submitted successfully'',
                       KeyboardDismiss])
             | Rejected \<Rightarrow>
                 Inr (st\<lparr>errors := Map.empty\<rparr>,
                      [Fetch (submit (formData st)),
                       Alert ''Error'' ''An error occurred while submitting the form''])))"

subsection \<open>The elements the traversal visits\<close>

text \<open>
  The elements that the three nested loops reach, in the order they reach them:
  those of the columns of the row blocks.
\<close>

fun block_elements :: "block \<Rightarrow> element list" where
  "block_elements (RowB cols) = concat (map elements cols)"
| "block_elements (BlockB els) = []"
| "block_elements (OtherB t) = []"

definition traversed :: "blueprint \<Rightarrow> element list" where
  "traversed config = concat (map block_elements config)"

subsection \<open>An engine for the worked examples\<close>

text \<open>
  The examples use one regular expression, \<^verbatim>\<open>^.+$\<close> (a non-empty string without a
  line break), one source that is not a regular expression, \<^verbatim>\<open>[\<close>, and one bound
  above \<open>2^53\<close>, which is \<open>10^21\<close>. The engine of the examples knows the first,
  throws on every other source, and prints \<^verbatim>\<open>1e+21\<close>.
\<close>

definition sample_js :: platform where
  "sample_js =
     \<lparr>new_RegExp = (\<lambda>src. if src = ''^.+$''
                         then Some (\<lambda>s. s \<noteq> [] \<and> CHR 0x0A \<notin> set s \<and> CHR 0x0D \<notin> set s)
                         else None),
      float_str = (\<lambda>i. ''1e+21''),
      function_str = (\<lambda>k. ''function '' @ k @ ''() { [native code] }'')\<rparr>"

section \<open>Properties\<close>

subsection \<open>The loop over the rules\<close>

lemma validate_rules_append:
  "validate_rules js el (pre @ post) v =
     (case validate_rules js el pre v of
        Inl e \<Rightarrow> Inl e
      | Inr (Some m) \<Rightarrow> Inr (Some m)
      | Inr None \<Rightarrow> validate_rules js el post v)"
  by (induction pre) (auto split: sum.splits option.splits)

lemma validate_rules_pass_iff:
  "validate_rules js el rs v = Inr None \<longleftrightarrow> (\<forall>q\<in>set rs. check_rule js el q v = Inr None)"
  by (induction rs) (auto split: sum.splits option.splits)

lemma validate_rules_Some_split:
  "validate_rules js el rs v = Inr (Some m) \<Longrightarrow>
     \<exists>pre r post. rs = pre @ r # post \<and> (\<forall>q\<in>set pre. check_rule js el q v = Inr None)
        \<and> check_rule js el r v = Inr (Some m)"
proof (induction rs)
  case Nil
  then show ?case by simp
next
  case (Cons a rs)
  show ?case
  proof (cases "check_rule js el a v")
    case (Inl e)
    with Cons.prems show ?thesis by simp
  next
    case (Inr res)
    show ?thesis
    proof (cases res)
      case None
      with Inr Cons.prems have "validate_rules js el rs v = Inr (Some m)" by simp
      from Cons.IH[OF this] obtain pre r post where
        h: "rs = pre @ r # post" "\<forall>q\<in>set pre. check_rule js el q v = Inr None"
           "check_rule js el r v = Inr (Some m)" by blast
      from h None Inr have "a # rs = (a # pre) @ r # post \<and>
         (\<forall>q\<in>set (a # pre). check_rule js el q v = Inr None) \<and> check_rule js el r v = Inr (Some m)"
        by simp
      then show ?thesis by blast
    next
      case (Some m')
      with Inr Cons.prems have "m' = m" by simp
      with Some Inr have "a # rs = [] @ a # rs \<and>
         (\<forall>q\<in>set []. check_rule js el q v = Inr None) \<and> check_rule js el a v = Inr (Some m)"
        by simp
      then show ?thesis by blast
    qed
  qed
qed

lemma digits_nonempty: "digits n \<noteq> []"
  by (subst digits.simps) simp



lemma forEach_append:
  "forEach f (xs @ ys) a = (case forEach f xs a of Inl e \<Rightarrow> Inl e | Inr a' \<Rightarrow> forEach f ys a')"
  by (induction xs arbitrary: a) (auto split: sum.splits)

lemma forEach_columns:
  "forEach (visit_column js fd) cols a = forEach (visit_element js fd) (concat (map elements cols)) a"
  by (induction cols arbitrary: a) (auto simp: visit_column_def forEach_append split: sum.splits)

lemma visit_block_elements:
  "visit_block js fd b a = forEach (visit_element js fd) (block_elements b) a"
  by (cases b) (simp_all add: forEach_columns)

lemma forEach_blocks:
  "forEach (visit_block js fd) config a = forEach (visit_element js fd) (concat (map block_elements config)) a"
  by (induction config arbitrary: a) (auto simp: visit_block_elements forEach_append split: sum.splits)

lemma traverse_traversed:
  "traverse js config fd = forEach (visit_element js fd) (traversed config) (Map.empty, False)"
  by (simp add: traverse_def traversed_def forEach_blocks)

lemma visit_element_hasErrors:
  "visit_element js fd el a = Inr a' \<Longrightarrow> (fst a \<noteq> Map.empty \<longrightarrow> snd a) \<Longrightarrow>
     (fst a' \<noteq> Map.empty \<longrightarrow> snd a')"
  by (auto simp: visit_element_def validator_step_def required_step_def
           split: sum.splits option.splits if_splits)

lemma forEach_hasErrors:
  "forEach (visit_element js fd) els a = Inr a' \<Longrightarrow> (fst a \<noteq> Map.empty \<longrightarrow> snd a) \<Longrightarrow>
     (fst a' \<noteq> Map.empty \<longrightarrow> snd a')"
proof (induction els arbitrary: a)
  case Nil
  then show ?case by simp
next
  case (Cons e els)
  from Cons.prems(1) obtain b where b: "visit_element js fd e a = Inr b"
    and r: "forEach (visit_element js fd) els b = Inr a'"
    by (auto split: sum.splits)
  from visit_element_hasErrors[OF b Cons.prems(2)] Cons.IH[OF r] show ?case by simp
qed

text \<open>
  Every stored error sets \<^verbatim>\<open>hasErrors\<close>. The converse does not hold: an assignment
  under the key \<^verbatim>\<open>__proto__\<close> stores nothing and the flag is set all the same.
\<close>

lemma traverse_hasErrors:
  "traverse js config fd = Inr (errs, has) \<Longrightarrow> errs \<noteq> Map.empty \<Longrightarrow> has"
  using forEach_hasErrors[of js fd "traversed config" "(Map.empty, False)" "(errs, has)"]
  by (simp add: traverse_traversed)

lemma traverse_no_errors:
  "traverse js config fd = Inr (errs, False) \<Longrightarrow> errs = Map.empty"
  using traverse_hasErrors [of js config fd errs False] by blast

lemma visit_element_other_key:
  "visit_element js fd el a = Inr a' \<Longrightarrow> key el \<noteq> k \<Longrightarrow> fst a' k = fst a k"
  by (auto simp: visit_element_def validator_step_def required_step_def obj_set_def
           split: sum.splits option.splits if_splits)

lemma forEach_other_keys:
  "forEach (visit_element js fd) els a = Inr a' \<Longrightarrow> k \<notin> key ` set els \<Longrightarrow> fst a' k = fst a k"
proof (induction els arbitrary: a)
  case Nil
  then show ?case by simp
next
  case (Cons e els)
  from Cons.prems(1) obtain b where b: "visit_element js fd e a = Inr b"
    and r: "forEach (visit_element js fd) els b = Inr a'"
    by (auto split: sum.splits)
  from Cons.prems(2) have "key e \<noteq> k" "k \<notin> key ` set els" by auto
  with Cons.IH[OF r] visit_element_other_key[OF b] show ?case by simp
qed

lemma visit_element_required:
  "visit_element js fd el a = Inr a' \<Longrightarrow> required el \<Longrightarrow> \<not> truthy (obj_get fd (key el)) \<Longrightarrow>
     key el \<noteq> ''__proto__'' \<Longrightarrow>
     fst a' (key el) = Some (tmpl (label el) @ '' is required'') \<and> snd a'"
  by (auto simp: visit_element_def required_step_def obj_set_def split: sum.splits)

lemma visit_element_inert:
  "\<not> required el \<Longrightarrow> validator el = None \<Longrightarrow> visit_element js fd el a = Inr a"
  by (simp add: visit_element_def validator_step_def required_step_def)

lemma check_rule_etype: "check_rule js (el\<lparr>etype := k\<rparr>) r v = check_rule js el r v"
  by (cases r) (auto split: option.splits)

lemma validate_rules_etype: "validate_rules js (el\<lparr>etype := k\<rparr>) rs v = validate_rules js el rs v"
  by (induction rs) (auto simp: check_rule_etype split: sum.splits option.splits)

lemma key_etype: "key (el\<lparr>etype := k\<rparr>) = key el"
  by (simp add: key_def)

lemma validateInput_etype: "validateInput js (el\<lparr>etype := k\<rparr>) v = validateInput js el v"
  by (simp add: validateInput_def validate_rules_etype)

lemma validator_step_etype:
  "validator_step js fd (el\<lparr>etype := k\<rparr>) a = validator_step js fd el a"
  by (auto simp: validator_step_def key_etype validator_arg_def validateInput_etype
           split: sum.splits option.splits)

lemma required_step_etype:
  "required_step fd (el\<lparr>etype := k\<rparr>) a = required_step fd el a"
  by (simp add: required_step_def key_etype)

lemma visit_element_etype:
  "visit_element js fd (el\<lparr>etype := k\<rparr>) a = visit_element js fd el a"
  by (auto simp: visit_element_def validator_step_etype required_step_etype
           split: sum.splits)

subsection \<open>The length rules\<close>

text \<open>
  Claim C1, as the code has it. Take an element whose validator holds a length rule
  with operator \<^verbatim>\<open>gte\<close> and bound \<open>n\<close>, and a string \<open>v\<close> that passes the rules
  declared before it. Then \<^verbatim>\<open>validateInput\<close> returns the message of this rule exactly
  when the length of \<open>v\<close> is strictly less than \<open>n\<close>; at length \<open>n\<close> and above the rule
  is silent and the result is that of the rules declared after it. The message is
  \<^verbatim>\<open>Value of <label> field must be at least <value> characters long\<close>: it starts with
  \<^verbatim>\<open>Value of\<close>, and the bound is printed as a template literal prints a number, in
  decimal when its magnitude is at most \<open>2^53\<close>.
\<close>

theorem length_gte_rule:
  assumes "validator el = Some (pre @ Length ''gte'' n # post)"
    and "validate_rules js el pre (JStr v) = Inr None"
  shows "validateInput js el (JStr v) =
       (if int (length v) < n
        then Inr (Some (''Value of '' @ tmpl (label el) @ '' field must be at least ''
                        @ num_str js n @ '' characters long''))
        else validate_rules js el post (JStr v))
     \<and> (\<bar>n\<bar> \<le> 2 ^ 53 \<longrightarrow> num_str js n = decimal n)"
  using assms by (simp add: validateInput_def validate_rules_append num_str_def)

text \<open>
  The rule at work: label \<^verbatim>\<open>Bio\<close>, bound 10, on a value of five characters and on
  one of exactly ten; and the bound \<open>10^21\<close>, which is printed in exponent form.
\<close>

theorem length_gte_rule_witness:
  "validateInput sample_js
     \<lparr>etype = ''input'', name = Some ''bio'', label = Some ''Bio'', required = False,
      validator = Some [Length ''gte'' 10]\<rparr> (JStr ''short'')
   = Inr (Some ''Value of Bio field must be at least 10 characters long'')
   \<and> validateInput sample_js
     \<lparr>etype = ''input'', name = Some ''bio'', label = Some ''Bio'', required = False,
      validator = Some [Length ''gte'' 10]\<rparr> (JStr ''abcdefghij'')
   = Inr None
   \<and> validateInput sample_js
     \<lparr>etype = ''input'', name = Some ''bio'', label = Some ''Bio'', required = False,
      validator = Some [Length ''gte'' (10 ^ 21)]\<rparr> (JStr ''short'')
   = Inr (Some ''Value of Bio field must be at least 1e+21 characters long'')"
  using length_gte_rule [of "\<lparr>etype = ''input'', name = Some ''bio'', label = Some ''Bio'', required = False,
      validator = Some [Length ''gte'' 10]\<rparr>" "[]" 10 "[]" sample_js "''short''"]
        length_gte_rule [of "\<lparr>etype = ''input'', name = Some ''bio'', label = Some ''Bio'', required = False,
      validator = Some [Length ''gte'' 10]\<rparr>" "[]" 10 "[]" sample_js "''abcdefghij''"]
        length_gte_rule [of "\<lparr>etype = ''input'', name = Some ''bio'', label = Some ''Bio'', required = False,
      validator = Some [Length ''gte'' (10 ^ 21)]\<rparr>" "[]" "10 ^ 21" "[]" sample_js "''short''"]
  by (simp add: num_str_def decimal_def digits.simps sample_js_def)

text \<open>
  Claim C1 as it was stated gives the message without its first two words; that is
  not the string the code returns.
\<close>

theorem length_gte_message_counterexample:
  "validateInput sample_js
     \<lparr>etype = ''input'', name = Some ''bio'', label = Some ''Bio'', required = False,
      validator = Some [Length ''gte'' 10]\<rparr> (JStr ''short'')
   \<noteq> Inr (Some ''Bio field must be at least 10 characters long'')"
  by (simp add: validateInput_def num_str_def decimal_def digits.simps)

text \<open>
  Claim C2, as the code has it. For a length rule with operator \<^verbatim>\<open>gt\<close> and bound
  \<open>n\<close>, and a string \<open>v\<close> that passes the rules declared before it,
  \<^verbatim>\<open>validateInput\<close> returns the message of this rule exactly when the length of \<open>v\<close>
  is at most \<open>n\<close>; from length \<open>n + 1\<close> on the rule is silent. The message is
  \<^verbatim>\<open>Value of <label> field must be longer than <value> characters\<close>, with the bound
  printed as a template literal prints a number, in decimal when its magnitude is
  at most \<open>2^53\<close>.
\<close>

theorem length_gt_rule:
  assumes "validator el = Some (pre @ Length ''gt'' n # post)"
    and "validate_rules js el pre (JStr v) = Inr None"
  shows "validateInput js el (JStr v) =
       (if int (length v) \<le> n
        then Inr (Some (''Value of '' @ tmpl (label el) @ '' field must be longer than ''
                        @ num_str js n @ '' characters''))
        else validate_rules js el post (JStr v))
     \<and> (\<bar>n\<bar> \<le> 2 ^ 53 \<longrightarrow> num_str js n = decimal n)"
  using assms by (simp add: validateInput_def validate_rules_append num_str_def)

text \<open>
  The boundary of the rule: bound 4, on values of four and of five characters; and
  the bound \<open>10^21\<close> in exponent form.
\<close>

theorem length_gt_rule_witness:
  "validateInput sample_js
     \<lparr>etype = ''password'', name = Some ''pin'', label = Some ''Pin'', required = False,
      validator = Some [Length ''gt'' 4]\<rparr> (JStr ''1234'')
   = Inr (Some ''Value of Pin field must be longer than 4 characters'')
   \<and> validateInput sample_js
     \<lparr>etype = ''password'', name = Some ''pin'', label = Some ''Pin'', required = False,
      validator = Some [Length ''gt'' 4]\<rparr> (JStr ''12345'')
   = Inr None
   \<and> validateInput sample_js
     \<lparr>etype = ''password'', name = Some ''pin'', label = Some ''Pin'', required = False,
      validator = Some [Length ''gt'' (10 ^ 21)]\<rparr> (JStr ''1234'')
   = Inr (Some ''Value of Pin field must be longer than 1e+21 characters'')"
  using length_gt_rule [of "\<lparr>etype = ''password'', name = Some ''pin'', label = Some ''Pin'', required = False,
      validator = Some [Length ''gt'' 4]\<rparr>" "[]" 4 "[]" sample_js "''1234''"]
        length_gt_rule [of "\<lparr>etype = ''password'', name = Some ''pin'', label = Some ''Pin'', required = False,
      validator = Some [Length ''gt'' 4]\<rparr>" "[]" 4 "[]" sample_js "''12345''"]
        length_gt_rule [of "\<lparr>etype = ''password'', name = Some ''pin'', label = Some ''Pin'', required = False,
      validator = Some [Length ''gt'' (10 ^ 21)]\<rparr>" "[]" "10 ^ 21" "[]" sample_js "''1234''"]
  by (simp add: num_str_def decimal_def digits.simps sample_js_def)

text \<open>Claim C2 as it was stated leaves out the first two words of the message.\<close>

theorem length_gt_message_counterexample:
  "validateInput sample_js
     \<lparr>etype = ''password'', name = Some ''pin'', label = Some ''Pin'', required = False,
      validator = Some [Length ''gt'' 4]\<rparr> (JStr ''1234'')
   \<noteq> Inr (Some ''Pin field must be longer than 4 characters'')"
  by (simp add: validateInput_def num_str_def decimal_def digits.simps)

subsection \<open>The first failing rule\<close>

text \<open>
  Claim C9. \<^verbatim>\<open>validateInput\<close> returns a message \<open>m\<close> exactly when the rules split
  into rules that all pass, then a rule that fails with \<open>m\<close>, then the rest: the
  message is that of the earliest failing rule, and no rule declared after it is
  evaluated.
\<close>

theorem first_failing_rule:
  assumes "validator el = Some rs"
  shows "validateInput js el v = Inr (Some m) \<longleftrightarrow>
     (\<exists>pre r post. rs = pre @ r # post
        \<and> (\<forall>q\<in>set pre. check_rule js el q v = Inr None)
        \<and> check_rule js el r v = Inr (Some m))"
proof
  assume "validateInput js el v = Inr (Some m)"
  with assms have "validate_rules js el rs v = Inr (Some m)"
    by (simp add: validateInput_def)
  then show "\<exists>pre r post. rs = pre @ r # post
        \<and> (\<forall>q\<in>set pre. check_rule js el q v = Inr None)
        \<and> check_rule js el r v = Inr (Some m)"
    by (rule validate_rules_Some_split)
next
  assume "\<exists>pre r post. rs = pre @ r # post
        \<and> (\<forall>q\<in>set pre. check_rule js el q v = Inr None)
        \<and> check_rule js el r v = Inr (Some m)"
  then obtain pre r post where rs: "rs = pre @ r # post"
    and pre: "\<forall>q\<in>set pre. check_rule js el q v = Inr None"
    and r: "check_rule js el r v = Inr (Some m)" by blast
  from pre have "validate_rules js el pre v = Inr None"
    by (simp add: validate_rules_pass_iff)
  with rs r assms show "validateInput js el v = Inr (Some m)"
    by (simp add: validateInput_def validate_rules_append)
qed

text \<open>
  Two failing length rules after a rule of unknown type: the message is that of the
  first of them, and the malformed pattern declared after it is never compiled.
\<close>

theorem first_failing_rule_witness:
  "validateInput sample_js
     \<lparr>etype = ''input'', name = Some ''nick'', label = Some ''Nick'', required = False,
      validator = Some [OtherRule ''email'', Length ''gte'' 8, Pattern ''['', Length ''gt'' 20]\<rparr>
     (JStr ''abc'')
   = Inr (Some ''Value of Nick field must be at least 8 characters long'')"
proof -
  let ?el = "\<lparr>etype = ''input'', name = Some ''nick'', label = Some ''Nick'', required = False,
      validator = Some [OtherRule ''email'', Length ''gte'' 8, Pattern ''['', Length ''gt'' 20]\<rparr>"
  have v: "validator ?el = Some [OtherRule ''email'', Length ''gte'' 8, Pattern ''['', Length ''gt'' 20]"
    by simp
  have "[OtherRule ''email'', Length ''gte'' 8, Pattern ''['', Length ''gt'' 20]
          = [OtherRule ''email''] @ Length ''gte'' 8 # [Pattern ''['', Length ''gt'' 20]
        \<and> (\<forall>q\<in>set [OtherRule ''email'']. check_rule sample_js ?el q (JStr ''abc'') = Inr None)
        \<and> check_rule sample_js ?el (Length ''gte'' 8) (JStr ''abc'')
            = Inr (Some ''Value of Nick field must be at least 8 characters long'')"
    by (simp add: num_str_def decimal_def digits.simps)
  then have "\<exists>pre r post. [OtherRule ''email'', Length ''gte'' 8, Pattern ''['', Length ''gt'' 20]
          = pre @ r # post
        \<and> (\<forall>q\<in>set pre. check_rule sample_js ?el q (JStr ''abc'') = Inr None)
        \<and> check_rule sample_js ?el r (JStr ''abc'')
            = Inr (Some ''Value of Nick field must be at least 8 characters long'')"
    by blast
  with first_failing_rule [OF v, of sample_js "JStr ''abc''"
      "''Value of Nick field must be at least 8 characters long''"]
  show ?thesis by blast
qed

subsection \<open>Loops that skip or replace an element\<close>

lemma forEach_skip:
  assumes "\<And>b. f x b = Inr b"
  shows "forEach f (xs @ x # ys) a = forEach f (xs @ ys) a"
  using assms by (simp add: forEach_append split: sum.splits)

lemma forEach_swap:
  assumes "\<And>b. f x b = f y b"
  shows "forEach f (xs @ x # ys) a = forEach f (xs @ y # ys) a"
  using assms by (simp add: forEach_append split: sum.splits)

text \<open>The definitions to unfold when the traversal is run on a concrete blueprint.\<close>

lemmas run_defs = traverse_def visit_column_def visit_element_def validator_step_def
  required_step_def key_def validator_arg_def or_empty_def validateInput_def
  obj_get_def obj_set_def proto_members_def num_str_def decimal_def digits.simps

subsection \<open>A rejected POST\<close>

text \<open>
  Claim C3, as the code has it. When the traversal leaves \<^verbatim>\<open>hasErrors\<close> false and
  the promise of the POST is rejected (a network or transport failure),
  \<^verbatim>\<open>handleSubmit\<close> shows the alert \<^verbatim>\<open>An error occurred while submitting the form\<close>,
  \<^verbatim>\<open>formData\<close> is untouched and \<^verbatim>\<open>errors\<close> is the empty object that was set before
  the POST.
\<close>

theorem submission_failed:
  assumes "traverse js config (formData st) = Inr (errs, False)"
  shows "handleSubmit js config st Rejected =
     Inr (st\<lparr>errors := Map.empty\<rparr>,
          [Fetch (submit (formData st)),
           Alert ''Error'' ''An error occurred while submitting the form''])"
  using assms by (simp add: handleSubmit_def)

text \<open>A filled form with a stale error on display, and a network failure.\<close>

theorem submission_failed_witness:
  "handleSubmit sample_js
     [RowB [\<lparr>size_col = 1, elements =
        [\<lparr>etype = ''input'', name = Some ''email'', label = Some ''Email'', required = True,
          validator = None\<rparr>]\<rparr>]]
     \<lparr>formData = [''email'' \<mapsto> JStr ''a@b.com''], errors = [''email'' \<mapsto> ''Email is required'']\<rparr>
     Rejected
   = Inr (\<lparr>formData = [''email'' \<mapsto> JStr ''a@b.com''], errors = Map.empty\<rparr>,
          [Fetch (submit [''email'' \<mapsto> JStr ''a@b.com'']),
           Alert ''Error'' ''An error occurred while submitting the form''])"
proof -
  let ?cfg = "[RowB [\<lparr>size_col = 1, elements =
        [\<lparr>etype = ''input'', name = Some ''email'', label = Some ''Email'', required = True,
          validator = None\<rparr>]\<rparr>]]"
  let ?st = "\<lparr>formData = [''email'' \<mapsto> JStr ''a@b.com''], errors = [''email'' \<mapsto> ''Email is required'']\<rparr>"
  have t: "traverse sample_js ?cfg (formData ?st) = Inr (Map.empty, False)"
    by (simp add: run_defs)
  from submission_failed [OF t] show ?thesis by simp
qed

text \<open>
  Claim C3 as it was stated also covers a response with a status outside 2xx. Such
  a response fulfils the promise: on status 500 the code shows the success alert
  and clears \<^verbatim>\<open>formData\<close>.
\<close>

theorem non_2xx_response_counterexample:
  "handleSubmit sample_js
     [RowB [\<lparr>size_col = 1, elements =
        [\<lparr>etype = ''input'', name = Some ''email'', label = Some ''Email'', required = True,
          validator = None\<rparr>]\<rparr>]]
     \<lparr>formData = [''email'' \<mapsto> JStr ''a@b.com''], errors = Map.empty\<rparr>
     (Fulfilled 500)
   = Inr (\<lparr>formData = Map.empty, errors = Map.empty\<rparr>,
          [Fetch (submit [''email'' \<mapsto> JStr ''a@b.com'']),
           Alert ''Success'' ''Form submitted successfully'',
           KeyboardDismiss])"
  by (simp add: handleSubmit_def run_defs)

subsection \<open>Blocks of kind block\<close>

text \<open>
  Claim C4. A block of type \<^verbatim>\<open>block\<close> may be taken out of the blueprint, whatever
  its elements declare and wherever it stands, without any change to the outcome
  of the traversal and of \<^verbatim>\<open>handleSubmit\<close>: its elements add no entry to the errors
  and never stand in the way of the submission.
\<close>

theorem block_kind_not_traversed:
  "traverse js (pre @ BlockB els # post) fd = traverse js (pre @ post) fd
   \<and> handleSubmit js (pre @ BlockB els # post) st net = handleSubmit js (pre @ post) st net"
proof -
  have "traversed (pre @ BlockB els # post) = traversed (pre @ post)"
    by (simp add: traversed_def)
  then show ?thesis
    by (simp add: handleSubmit_def traverse_traversed)
qed

text \<open>
  A block holding a required input with a validator, next to a row with an empty
  column: the empty form is submitted.
\<close>

theorem block_kind_not_traversed_witness:
  "handleSubmit sample_js
     [BlockB [\<lparr>etype = ''input'', name = Some ''email'', label = Some ''Email'', required = True,
               validator = Some [Length ''gte'' 5]\<rparr>],
      RowB [\<lparr>size_col = 1, elements = []\<rparr>]]
     \<lparr>formData = Map.empty, errors = Map.empty\<rparr>
     (Fulfilled 200)
   = Inr (\<lparr>formData = Map.empty, errors = Map.empty\<rparr>,
          [Fetch (submit Map.empty),
           Alert ''Success'' ''Form submitted successfully'',
           KeyboardDismiss])"
proof -
  have "handleSubmit sample_js ([] @ [RowB [\<lparr>size_col = 1, elements = []\<rparr>]])
     \<lparr>formData = Map.empty, errors = Map.empty\<rparr> (Fulfilled 200)
   = Inr (\<lparr>formData = Map.empty, errors = Map.empty\<rparr>,
          [Fetch (submit Map.empty),
           Alert ''Success'' ''Form submitted successfully'',
           KeyboardDismiss])"
    by (simp add: handleSubmit_def run_defs)
  with block_kind_not_traversed [of sample_js "[]"
      "[\<lparr>etype = ''input'', name = Some ''email'', label = Some ''Email'', required = True,
               validator = Some [Length ''gte'' 5]\<rparr>]"
      "[RowB [\<lparr>size_col = 1, elements = []\<rparr>]]" Map.empty
      "\<lparr>formData = Map.empty, errors = Map.empty\<rparr>" "Fulfilled 200"]
  show ?thesis by simp
qed

subsection \<open>The value handed to validateInput\<close>




subsection \<open>Required fields\<close>

text \<open>
  Claim C6, as the code has it. Let \<open>el\<close> be a traversed element that declares
  \<^verbatim>\<open>required\<close>, whose name is not \<^verbatim>\<open>__proto__\<close>, and for which
  \<^verbatim>\<open>formData[element.name]\<close> reads a falsy value: the field holds the empty string or
  \<^verbatim>\<open>false\<close>, or holds nothing under a name that \<^verbatim>\<open>Object.prototype\<close> does not define.
  Let no element traversed after it have the same name (names are unique within a
  blueprint). Then, whatever the validator of \<open>el\<close> said, the errors of the
  traversal hold \<^verbatim>\<open><label> is required\<close> under the name of \<open>el\<close>, and \<^verbatim>\<open>hasErrors\<close> is
  set.
\<close>

theorem required_error_wins:
  assumes "traverse js config fd = Inr (errs, has)"
    and "traversed config = pre @ el # post"
    and "required el"
    and "\<not> truthy (obj_get fd (key el))"
    and "key el \<noteq> ''__proto__''"
    and "key el \<notin> key ` set post"
  shows "errs (key el) = Some (tmpl (label el) @ '' is required'') \<and> has"
proof -
  from assms(1,2) have "forEach (visit_element js fd) (pre @ el # post) (Map.empty, False) = Inr (errs, has)"
    by (simp add: traverse_traversed)
  then obtain a b where a: "forEach (visit_element js fd) pre (Map.empty, False) = Inr a"
    and b: "visit_element js fd el a = Inr b"
    and c: "forEach (visit_element js fd) post b = Inr (errs, has)"
    by (auto simp: forEach_append split: sum.splits)
  from visit_element_required [OF b assms(3,4,5)]
  have rb: "fst b (key el) = Some (tmpl (label el) @ '' is required'')" and sb: "snd b"
    by simp_all
  from forEach_other_keys [OF c assms(6)] rb have e: "errs (key el) = Some (tmpl (label el) @ '' is required'')"
    by simp
  then have "errs \<noteq> Map.empty" by auto
  from traverse_hasErrors [OF assms(1) this] e show ?thesis by simp
qed

text \<open>
  A required input with a pattern rule and no value: the pattern rule fails on the
  empty string, and the error kept is the one of the required check.
\<close>

theorem required_error_wins_witness:
  "traverse sample_js
     [RowB [\<lparr>size_col = 1, elements =
        [\<lparr>etype = ''input'', name = Some ''email'', label = Some ''Email'', required = True,
          validator = Some [Pattern ''^.+$'']\<rparr>]\<rparr>]]
     Map.empty
   = Inr ([''email'' \<mapsto> ''Email is required''], True)
   \<and> validateInput sample_js
        \<lparr>etype = ''input'', name = Some ''email'', label = Some ''Email'', required = True,
          validator = Some [Pattern ''^.+$'']\<rparr> (JStr [])
      = Inr (Some ''Invalid format for Email field'')"
proof -
  let ?el = "\<lparr>etype = ''input'', name = Some ''email'', label = Some ''Email'', required = True,
          validator = Some [Pattern ''^.+$'']\<rparr>"
  let ?cfg = "[RowB [\<lparr>size_col = 1, elements = [?el]\<rparr>]]"
  let ?errs = "[''email'' \<mapsto> ''Email is required'']"
  have t: "traverse sample_js ?cfg Map.empty = Inr (?errs, True)"
    by (simp add: run_defs sample_js_def)
  have e: "traversed ?cfg = [] @ ?el # []"
    by (simp add: traversed_def)
  have "?errs (key ?el) = Some (tmpl (label ?el) @ '' is required'') \<and> True"
    by (rule required_error_wins [OF t e]) (simp_all add: key_def obj_get_def proto_members_def)
  moreover have "validateInput sample_js ?el (JStr []) = Inr (Some ''Invalid format for Email field'')"
    by (simp add: run_defs sample_js_def)
  ultimately show ?thesis using t by simp
qed

text \<open>
  Claim C6 as it was stated covers every name. A required checkbox named
  \<^verbatim>\<open>__proto__\<close> that holds \<^verbatim>\<open>false\<close> fails the required check, but the assignment
  of the message under that key stores nothing: the flag is set and the errors
  stay empty. And a required input named \<^verbatim>\<open>constructor\<close> in an empty form reads the
  function of that name, which is truthy: no error is recorded at all.
\<close>

theorem required_proto_counterexample:
  "traverse sample_js
     [RowB [\<lparr>size_col = 1, elements =
        [\<lparr>etype = ''checkbox'', name = Some ''__proto__'', label = Some ''Agree'',
          required = True, validator = None\<rparr>]\<rparr>]]
     [''__proto__'' \<mapsto> JBool False]
   = Inr (Map.empty, True)
   \<and> traverse sample_js
     [RowB [\<lparr>size_col = 1, elements =
        [\<lparr>etype = ''input'', name = Some ''constructor'', label = Some ''Builder'',
          required = True, validator = None\<rparr>]\<rparr>]]
     Map.empty
   = Inr (Map.empty, False)"
  by (simp add: run_defs)

subsection \<open>Validation errors stop the submission\<close>

text \<open>
  Claim C7. When the traversal ends with a non-empty object of errors,
  \<^verbatim>\<open>handleSubmit\<close> returns normally: the errors are stored in \<^verbatim>\<open>errors\<close> for display,
  \<^verbatim>\<open>formData\<close> is untouched, and the only effect is the alert \<^verbatim>\<open>Validation Error\<close>;
  no request is sent.
\<close>

theorem validation_failed:
  assumes "traverse js config (formData st) = Inr (errs, has)"
    and "errs \<noteq> Map.empty"
  shows "handleSubmit js config st net =
     Inr (st\<lparr>errors := errs\<rparr>,
          [Alert ''Validation Error'' ''Please correct the errors in the form''])"
  using assms traverse_hasErrors [OF assms] by (simp add: handleSubmit_def)

text \<open>A required input and an empty form.\<close>

theorem validation_failed_witness:
  "handleSubmit sample_js
     [RowB [\<lparr>size_col = 1, elements =
        [\<lparr>etype = ''input'', name = Some ''email'', label = Some ''Email'', required = True,
          validator = None\<rparr>]\<rparr>]]
     \<lparr>formData = Map.empty, errors = Map.empty\<rparr>
     (Fulfilled 200)
   = Inr (\<lparr>formData = Map.empty, errors = [''email'' \<mapsto> ''Email is required'']\<rparr>,
          [Alert ''Validation Error'' ''Please correct the errors in the form''])"
proof -
  let ?cfg = "[RowB [\<lparr>size_col = 1, elements =
        [\<lparr>etype = ''input'', name = Some ''email'', label = Some ''Email'', required = True,
          validator = None\<rparr>]\<rparr>]]"
  let ?st = "\<lparr>formData = Map.empty, errors = Map.empty\<rparr>"
  have t: "traverse sample_js ?cfg (formData ?st) = Inr ([''email'' \<mapsto> ''Email is required''], True)"
    by (simp add: run_defs)
  have n: "[''email'' \<mapsto> ''Email is required''] \<noteq> Map.empty"
    by simp
  from validation_failed [OF t n, of "Fulfilled 200"] show ?thesis by simp
qed

subsection \<open>A successful submission\<close>

text \<open>
  Claim C8, as the code has it. When the traversal leaves \<^verbatim>\<open>hasErrors\<close> false, the
  errors are empty and \<^verbatim>\<open>handleSubmit\<close> sends one request and no other, whatever the
  network does: a POST to the configured address, with the two JSON headers and
  the serialised \<^verbatim>\<open>formData\<close> as its body. When a response arrives it shows the
  success alert, dismisses the keyboard and leaves \<^verbatim>\<open>formData\<close> and \<^verbatim>\<open>errors\<close> empty.
\<close>

theorem submitted:
  assumes "traverse js config (formData st) = Inr (errs, False)"
  shows "errs = Map.empty
     \<and> (\<exists>st' rest. handleSubmit js config st net =
            Inr (st', Fetch \<lparr>url = ''https://9fd21a03-38a1-4e35-9cea-a97bcfc00f4b.mock.pstmn.io/reg'',
                  http_method = ''POST'',
                  headers = [(''Accept'', ''application/json''),
                             (''Content-Type'', ''application/json'')],
                  json_body = formData st\<rparr> # rest)
          \<and> (\<forall>r. Fetch r \<notin> set rest))
     \<and> handleSubmit js config st (Fulfilled status) =
         Inr (st\<lparr>errors := Map.empty, formData := Map.empty\<rparr>,
              [Fetch \<lparr>url = ''https://9fd21a03-38a1-4e35-9cea-a97bcfc00f4b.mock.pstmn.io/reg'',
                  http_method = ''POST'',
                  headers = [(''Accept'', ''application/json''),
                             (''Content-Type'', ''application/json'')],
                  json_body = formData st\<rparr>,
               Alert ''Success'' ''Form submitted successfully'',
               KeyboardDismiss])"
  using assms traverse_no_errors [OF assms]
  by (cases net) (simp_all add: handleSubmit_def submit_def configUrl_def)

text \<open>The filled form and a response of status 200.\<close>

theorem submitted_witness:
  "handleSubmit sample_js
     [RowB [\<lparr>size_col = 1, elements =
        [\<lparr>etype = ''input'', name = Some ''email'', label = Some ''Email'', required = True,
          validator = None\<rparr>]\<rparr>]]
     \<lparr>formData = [''email'' \<mapsto> JStr ''a@b.com''], errors = Map.empty\<rparr>
     (Fulfilled 200)
   = Inr (\<lparr>formData = Map.empty, errors = Map.empty\<rparr>,
          [Fetch \<lparr>url = ''https://9fd21a03-38a1-4e35-9cea-a97bcfc00f4b.mock.pstmn.io/reg'',
                  http_method = ''POST'',
                  headers = [(''Accept'', ''application/json''),
                             (''Content-Type'', ''application/json'')],
                  json_body = [''email'' \<mapsto> JStr ''a@b.com'']\<rparr>,
           Alert ''Success'' ''Form submitted successfully'',
           KeyboardDismiss])"
proof -
  let ?cfg = "[RowB [\<lparr>size_col = 1, elements =
        [\<lparr>etype = ''input'', name = Some ''email'', label = Some ''Email'', required = True,
          validator = None\<rparr>]\<rparr>]]"
  let ?st = "\<lparr>formData = [''email'' \<mapsto> JStr ''a@b.com''], errors = Map.empty\<rparr>"
  have t: "traverse sample_js ?cfg (formData ?st) = Inr (Map.empty, False)"
    by (simp add: run_defs)
  from submitted [OF t, of "Fulfilled 200" 200] show ?thesis by simp
qed

text \<open>
  Claim C8 as it was stated starts from an empty object of errors. A required
  checkbox named \<^verbatim>\<open>__proto__\<close> that holds \<^verbatim>\<open>false\<close> leaves the errors empty and sets
  \<^verbatim>\<open>hasErrors\<close>: the code shows the validation alert and sends nothing.
\<close>

theorem empty_errors_no_post_counterexample:
  "traverse sample_js
     [RowB [\<lparr>size_col = 1, elements =
        [\<lparr>etype = ''checkbox'', name = Some ''__proto__'', label = Some ''Agree'',
          required = True, validator = None\<rparr>]\<rparr>]]
     [''__proto__'' \<mapsto> JBool False]
   = Inr (Map.empty, True)
   \<and> handleSubmit sample_js
     [RowB [\<lparr>size_col = 1, elements =
        [\<lparr>etype = ''checkbox'', name = Some ''__proto__'', label = Some ''Agree'',
          required = True, validator = None\<rparr>]\<rparr>]]
     \<lparr>formData = [''__proto__'' \<mapsto> JBool False], errors = Map.empty\<rparr>
     (Fulfilled 200)
   = Inr (\<lparr>formData = [''__proto__'' \<mapsto> JBool False], errors = Map.empty\<rparr>,
          [Alert ''Validation Error'' ''Please correct the errors in the form''])"
  by (simp add: handleSubmit_def run_defs)

subsection \<open>The kind of an element\<close>

text \<open>
  Claim C10, as the code has it. The traversal does not look at the kind of an
  element: changing the \<^verbatim>\<open>type\<close> of an element in a column of a row changes nothing
  in the outcome of \<^verbatim>\<open>handleSubmit\<close>. An element that declares neither \<^verbatim>\<open>required\<close>
  nor a validator, as a heading, a paragraph or a submit button normally does,
  may be taken out of its column without any change to the outcome: it adds no
  entry to the errors and never stands in the way of the submission.
\<close>

theorem kind_not_inspected:
  "handleSubmit js (bpre @ RowB (cpre @ \<lparr>size_col = w, elements = epre @ el\<lparr>etype := k\<rparr> # epost\<rparr> # cpost) # bpost) st net
     = handleSubmit js (bpre @ RowB (cpre @ \<lparr>size_col = w, elements = epre @ el # epost\<rparr> # cpost) # bpost) st net
   \<and> (\<not> required el \<and> validator el = None \<longrightarrow>
        handleSubmit js (bpre @ RowB (cpre @ \<lparr>size_col = w, elements = epre @ el # epost\<rparr> # cpost) # bpost) st net
          = handleSubmit js (bpre @ RowB (cpre @ \<lparr>size_col = w, elements = epre @ epost\<rparr> # cpost) # bpost) st net)"
proof -
  let ?A = "traversed bpre @ concat (map elements cpre) @ epre"
  let ?B = "epost @ concat (map elements cpost) @ traversed bpost"
  let ?f = "visit_element js (formData st)"
  have t1: "traversed (bpre @ RowB (cpre @ \<lparr>size_col = w, elements = epre @ el\<lparr>etype := k\<rparr> # epost\<rparr> # cpost) # bpost)
      = ?A @ el\<lparr>etype := k\<rparr> # ?B"
    by (simp add: traversed_def)
  have t2: "traversed (bpre @ RowB (cpre @ \<lparr>size_col = w, elements = epre @ el # epost\<rparr> # cpost) # bpost)
      = ?A @ el # ?B"
    by (simp add: traversed_def)
  have t3: "traversed (bpre @ RowB (cpre @ \<lparr>size_col = w, elements = epre @ epost\<rparr> # cpost) # bpost)
      = ?A @ ?B"
    by (simp add: traversed_def)
  have s1: "forEach ?f (?A @ el\<lparr>etype := k\<rparr> # ?B) (Map.empty, False) = forEach ?f (?A @ el # ?B) (Map.empty, False)"
    by (rule forEach_swap) (rule visit_element_etype)
  have s2: "forEach ?f (?A @ el # ?B) (Map.empty, False) = forEach ?f (?A @ ?B) (Map.empty, False)"
    if "\<not> required el" "validator el = None"
    by (rule forEach_skip) (rule visit_element_inert [OF that])
  show ?thesis
    unfolding handleSubmit_def traverse_traversed t1 t2 t3 using s1 s2 by simp
qed

text \<open>A heading and a submit button in a row: the empty form is submitted.\<close>

theorem kind_not_inspected_witness:
  "handleSubmit sample_js
     [RowB [\<lparr>size_col = 1, elements =
        [\<lparr>etype = ''heading'', name = None, label = None, required = False, validator = None\<rparr>,
         \<lparr>etype = ''submit'', name = None, label = Some ''Register'', required = False,
          validator = None\<rparr>]\<rparr>]]
     \<lparr>formData = Map.empty, errors = Map.empty\<rparr>
     (Fulfilled 200)
   = Inr (\<lparr>formData = Map.empty, errors = Map.empty\<rparr>,
          [Fetch (submit Map.empty),
           Alert ''Success'' ''Form submitted successfully'',
           KeyboardDismiss])"
proof -
  let ?h = "\<lparr>etype = ''heading'', name = None, label = None, required = False, validator = None\<rparr>"
  let ?s = "\<lparr>etype = ''submit'', name = None, label = Some ''Register'', required = False,
          validator = None\<rparr>"
  let ?st = "\<lparr>formData = Map.empty, errors = Map.empty\<rparr>"
  have "handleSubmit sample_js ([] @ RowB ([] @ \<lparr>size_col = 1, elements = [] @ [?s]\<rparr> # []) # [])
          ?st (Fulfilled 200)
        = Inr (\<lparr>formData = Map.empty, errors = Map.empty\<rparr>,
          [Fetch (submit Map.empty),
           Alert ''Success'' ''Form submitted successfully'',
           KeyboardDismiss])"
    by (simp add: handleSubmit_def run_defs)
  with kind_not_inspected [of sample_js "[]" "[]" 1 "[]" "''heading''" ?h "[?s]" "[]" "[]" ?st "Fulfilled 200"]
  show ?thesis by simp
qed

text \<open>
  Claim C10 as it was stated also covers a heading whose entry carries
  \<^verbatim>\<open>required: true\<close>. Such a heading has no name and no value, so the required check
  fails on it under the key \<^verbatim>\<open>undefined\<close> and the form is not submitted.
\<close>

theorem required_heading_counterexample:
  "handleSubmit sample_js
     [RowB [\<lparr>size_col = 1, elements =
        [\<lparr>etype = ''heading'', name = None, label = None, required = True,
          validator = None\<rparr>]\<rparr>]]
     \<lparr>formData = Map.empty, errors = Map.empty\<rparr>
     (Fulfilled 200)
   = Inr (\<lparr>formData = Map.empty, errors = [''undefined'' \<mapsto> ''undefined is required'']\<rparr>,
          [Alert ''Validation Error'' ''Please correct the errors in the form''])"
  by (simp add: handleSubmit_def run_defs)

end
